theory Spec2Isabelle
  imports Main
begin

section \<open>Values, errors and panics of the Go runtime\<close>

text \<open>
  The package \<open>panics\<close> (file \<open>panics.go\<close>) is built on Go's \<open>panic\<close>, \<open>defer\<close> and
  \<open>recover\<close>. A shallow embedding makes these effects explicit: a Go function is a
  function from the program state to an outcome (normal return or panic) and the new state.

  An \<open>error\<close> value is given by its dynamic type: \<open>ErrorString\<close> is what \<open>errors.New\<close> and
  \<open>fmt.Errorf\<close> (without the verb \<open>%w\<close>) build, \<open>PanicNilError\<close> is the runtime's error for
  \<open>panic(nil)\<close>, and \<open>OtherError i t\<close> is an error of any other type, with a tag \<open>i\<close> that
  tells it apart from other errors and the text \<open>t\<close> that its \<open>Error\<close> method returns.
\<close>

datatype go_error =
    ErrorString string
  | PanicNilError
  | OtherError nat string

fun Error :: "go_error \<Rightarrow> string" where
  "Error (ErrorString s) = s"
| "Error PanicNilError = ''panic called with nil argument (obsolete option)''"
| "Error (OtherError i t) = t"

text \<open>
  A value of a type the package knows nothing about (a \<open>*http.Request\<close>, say): the name of
  its dynamic type, its address, and the text that the verb \<open>%v\<close> renders for it.
\<close>

record object =
  type_name :: string
  address :: nat
  rendering :: string

text \<open>
  The non-nil values of the interface type \<open>any\<close>. The nil interface is \<open>None\<close>, so
  \<open>x != nil\<close> reads \<open>x \<noteq> None\<close>; an \<open>error\<close> interface is a \<open>go_error option\<close> in the same
  way.
\<close>

datatype dyn =
    VString string
  | VInt int
  | VBool bool
  | VBytes string
  | VError go_error
  | VObject object

type_synonym any = "dyn option"

type_synonym request = object

type_synonym response_writer = nat

text \<open>The type assertion \<open>err, ok := r.(error)\<close>; \<open>ok\<close> is \<open>as_error r \<noteq> None\<close>.\<close>

fun as_error :: "any \<Rightarrow> go_error option" where
  "as_error (Some (VError err)) = Some err"
| "as_error _ = None"

subsection \<open>Formatting with package fmt\<close>

definition digit :: "nat \<Rightarrow> char" where
  "digit d = char_of (48 + d)"

fun show_nat :: "nat \<Rightarrow> string" where
  "show_nat n = (if n < 10 then [digit n] else show_nat (n div 10) @ [digit (n mod 10)])"

definition show_int :: "int \<Rightarrow> string" where
  "show_int i = (if i < 0 then ''-'' @ show_nat (nat (- i)) else show_nat (nat i))"

fun join_space :: "string list \<Rightarrow> string" where
  "join_space [] = []"
| "join_space [x] = x"
| "join_space (x # y # ys) = x @ '' '' @ join_space (y # ys)"

text \<open>
  The verb \<open>%v\<close>: a string prints as it is, an integer in decimal, a byte slice as the
  list of its bytes in decimal, an error as the result of its \<open>Error\<close> method.
\<close>

fun fmt_v :: "any \<Rightarrow> string" where
  "fmt_v None = ''<nil>''"
| "fmt_v (Some (VString s)) = s"
| "fmt_v (Some (VInt i)) = show_int i"
| "fmt_v (Some (VBool b)) = (if b then ''true'' else ''false'')"
| "fmt_v (Some (VBytes bs)) = ''['' @ join_space (map (\<lambda>c. show_nat (of_char c)) bs) @ '']''"
| "fmt_v (Some (VError err)) = Error err"
| "fmt_v (Some (VObject obj)) = rendering obj"

subsection \<open>Outcomes and programs\<close>

text \<open>
  A call either returns a value or panics with a payload. The payload is never the nil
  interface: since Go 1.21, the first release with the package \<open>log/slog\<close> that
  \<open>panics.go\<close> imports, the runtime delivers \<open>panic(nil)\<close> as a \<open>*runtime.PanicNilError\<close>.
\<close>

datatype 'a outcome = Returns 'a | Panics dyn

type_synonym ('st, 'a) prog = "'st \<Rightarrow> 'a outcome \<times> 'st"

fun go_panic :: "any \<Rightarrow> ('st, 'a) prog" where
  "go_panic None s = (Panics (VError PanicNilError), s)"
| "go_panic (Some v) s = (Panics v, s)"

text \<open>
  A deferred function runs on the state of the function that deferred it together with
  the panic in flight (\<open>None\<close> when the function is returning normally). \<open>recover\<close> returns
  that panic's payload and stops the panic; it returns nil when nothing is in flight.
\<close>

type_synonym 'st deferred = "(dyn option \<times> 'st, unit) prog"

definition recover :: "dyn option \<times> 'st \<Rightarrow> any \<times> (dyn option \<times> 'st)" where
  "recover fs = (fst fs, (None, snd fs))"

text \<open>An ordinary call made by a deferred function leaves the panic in flight alone.\<close>

definition call :: "('st, 'a) prog \<Rightarrow> (dyn option \<times> 'st, 'a) prog" where
  "call m fs = (case m (snd fs) of (r, s') \<Rightarrow> (r, (fst fs, s')))"

text \<open>
  \<open>with_defer d body\<close> is a function without results whose body is \<open>defer d(); body\<close>.
  The deferred call runs when the body has returned or panicked. If it returns and no
  panic is in flight any more, the function returns normally; if the panic is still in
  flight it goes on to the caller; if the deferred call panics itself, the new panic
  replaces the old one.
\<close>

definition with_defer :: "'st deferred \<Rightarrow> ('st, unit) prog \<Rightarrow> ('st, unit) prog" where
  "with_defer d body s =
     (case body s of
        (Returns _, s1) \<Rightarrow>
          (case d (None, s1) of
             (Returns _, (_, s2)) \<Rightarrow> (Returns (), s2)
           | (Panics q, (_, s2)) \<Rightarrow> (Panics q, s2))
      | (Panics p, s1) \<Rightarrow>
          (case d (Some p, s1) of
             (Returns _, (None, s2)) \<Rightarrow> (Returns (), s2)
           | (Returns _, (Some p', s2)) \<Rightarrow> (Panics p', s2)
           | (Panics q, (_, s2)) \<Rightarrow> (Panics q, s2)))"

section \<open>The world outside the package\<close>

text \<open>
  The package talks to the process-wide logger of \<open>log/slog\<close>, to \<open>net/http\<close> and to the
  runtime's stack inspection. The state records the calls that reach the logger and
  \<open>http.Error\<close>, in order. \<open>debug_Stack\<close> is the text that \<open>debug.Stack()\<close> returns for the
  running goroutine. \<open>calls\<close> is an invocation counter that only the wrapper \<open>counting\<close>
  below writes, as a test would count invocations in a captured variable. \<open>user\<close> is the
  rest of the program's state.
\<close>

datatype log_call = LogError string "any list"

datatype http_call = HttpError response_writer string int

record 's world =
  slog :: "log_call list"
  http :: "http_call list"
  debug_Stack :: string
  calls :: nat
  user :: 's

definition slog_Error :: "string \<Rightarrow> any list \<Rightarrow> 's world \<Rightarrow> 's world" where
  "slog_Error msg args w = w\<lparr>slog := slog w @ [LogError msg args]\<rparr>"

definition StatusInternalServerError :: int where
  "StatusInternalServerError = 500"

definition http_Error :: "response_writer \<Rightarrow> string \<Rightarrow> int \<Rightarrow> 's world \<Rightarrow> 's world" where
  "http_Error rw msg code w = w\<lparr>http := http w @ [HttpError rw msg code]\<rparr>"

definition counting :: "('s world, 'a) prog \<Rightarrow> ('s world, 'a) prog" where
  "counting m w = (case m w of (r, w') \<Rightarrow> (r, w'\<lparr>calls := Suc (calls w)\<rparr>))"

text \<open>
  \<open>runtime.Caller(skip)\<close> on a call stack given innermost frame first, each frame with its
  file and line: frame 0 is the function that calls \<open>runtime.Caller\<close>, frame 1 is the call
  site of that function. The program counter is left out.
\<close>

type_synonym frame = "string \<times> int"

definition runtime_Caller :: "frame list \<Rightarrow> nat \<Rightarrow> string \<times> int \<times> bool" where
  "runtime_Caller stack skip =
     (if skip < length stack then (fst (stack ! skip), snd (stack ! skip), True)
      else ('''', 0, False))"

text \<open>
  \<open>strings.TrimSpace\<close> removes leading and trailing white space as defined by Unicode.
  For it a string is the sequence of runes (code points) that ranging over it yields.
\<close>

type_synonym rune = nat

definition unicode_IsSpace :: "rune \<Rightarrow> bool" where
  "unicode_IsSpace r =
     (r \<in> {0x09, 0x0A, 0x0B, 0x0C, 0x0D, 0x20, 0x85, 0xA0, 0x1680,
            0x2028, 0x2029, 0x202F, 0x205F, 0x3000}
      \<or> (0x2000 \<le> r \<and> r \<le> 0x200A))"

definition TrimSpace :: "rune list \<Rightarrow> rune list" where
  "TrimSpace s = rev (dropWhile unicode_IsSpace (rev (dropWhile unicode_IsSpace s)))"

section \<open>The package\<close>

subsection \<open>Assertion helpers\<close>

definition OnError :: "frame list \<Rightarrow> go_error option \<Rightarrow> string \<Rightarrow> ('st, unit) prog" where
  "OnError stack err message s =
     (if err \<noteq> None then
        (case runtime_Caller stack 1 of (file, line, _) \<Rightarrow>
           go_panic (Some (VString (''('' @ file @ '':'' @ show_int line @ ''): '' @ message
                                     @ '' '' @ fmt_v (map_option VError err)))) s)
      else (Returns (), s))"

definition OnBlank :: "frame list \<Rightarrow> rune list \<Rightarrow> string \<Rightarrow> ('st, unit) prog" where
  "OnBlank stack val message s =
     (if TrimSpace val = [] then
        (case runtime_Caller stack 1 of (file, line, _) \<Rightarrow>
           go_panic (Some (VString (''('' @ file @ '':'' @ show_int line @ ''): '' @ message
                                     @ '' '' @ fmt_v (Some (VString ''blank string'')) @ ''.''))) s)
      else (Returns (), s))"

subsection \<open>Recovery\<close>

definition Recover :: "'s world deferred" where
  "Recover fs =
     (case recover fs of (r, (pf, w)) \<Rightarrow>
        if r \<noteq> None then
          (case as_error r of
             Some err \<Rightarrow> (Returns (), (pf, slog_Error ''Recovered from panic: %w'' [Some (VError err)] w))
           | None \<Rightarrow> (Returns (), (pf, slog_Error ''recovered from panic: %v'' [r] w)))
        else (Returns (), (pf, w)))"

definition RecoverAndHandle :: "(go_error \<Rightarrow> ('st, unit) prog) \<Rightarrow> 'st deferred" where
  "RecoverAndHandle fn fs =
     (case recover fs of (r, fs1) \<Rightarrow>
        if r \<noteq> None then
          (case as_error r of
             Some err \<Rightarrow> call (fn err) fs1
           | None \<Rightarrow> call (fn (ErrorString (''recovered from panic: '' @ fmt_v r))) fs1)
        else (Returns (), fs1))"

subsection \<open>Try and Retry\<close>

text \<open>
  \<open>Try\<close> keeps its result in the local variable \<open>err\<close>, which the handler passed to
  \<open>RecoverAndHandle\<close> assigns. The function literal that \<open>Try\<close> calls therefore runs on the
  pair of that variable and the state.
\<close>

definition Try :: "('st, unit) prog \<Rightarrow> ('st, go_error option) prog" where
  "Try fn s =
     (case with_defer
             (RecoverAndHandle (\<lambda>err2 (err, s'). (Returns (), (Some err2, s'))))
             (\<lambda>(err, s'). case fn s' of (r, s'') \<Rightarrow> (r, (err, s'')))
             (None, s) of
        (Returns _, (err, s1)) \<Rightarrow> (Returns err, s1)
      | (Panics p, (err, s1)) \<Rightarrow> (Panics p, s1))"

text \<open>
  The loop of \<open>Retry\<close> on its variable \<open>retries\<close>. Go's \<open>int\<close> is a machine integer; the
  loop only decrements a positive value, so it never wraps and an unbounded integer
  behaves the same.
\<close>

function Retry_loop :: "int \<Rightarrow> ('s world, unit) prog \<Rightarrow> ('s world, unit) prog" where
  "Retry_loop retries fn w =
     (if retries > 0 then
        (case Try fn w of
           (Returns err, w1) \<Rightarrow>
             if err = None then (Returns (), w1)
             else Retry_loop (retries - 1) fn
                    (slog_Error ''Retrying function due to error: %v'' [map_option VError err] w1)
         | (Panics p, w1) \<Rightarrow> (Panics p, w1))
      else (Returns (), w))"
  by pat_completeness auto
termination
  by (relation "measure (\<lambda>(retries, fn, w). nat retries)") auto

definition Retry :: "int \<Rightarrow> ('s world, unit) prog \<Rightarrow> ('s world, unit) prog" where
  "Retry maxRetries fn w = Retry_loop maxRetries fn w"

text \<open>
  The state that one turn of that loop leaves: \<open>Try fn\<close> has run, and if it returned an
  error the error has been logged. The attempts of a run start in the states
  \<open>w\<close>, \<open>Retry_turn fn w\<close>, \<open>Retry_turn fn (Retry_turn fn w)\<close> and so on.
\<close>

definition Retry_turn :: "('s world, unit) prog \<Rightarrow> 's world \<Rightarrow> 's world" where
  "Retry_turn fn w =
     (case Try fn w of
        (Returns err, w1) \<Rightarrow>
          if err = None then w1
          else slog_Error ''Retrying function due to error: %v'' [map_option VError err] w1
      | (Panics p, w1) \<Rightarrow> w1)"

subsection \<open>HTTP middleware\<close>

text \<open>A handler is its method \<open>ServeHTTP\<close>.\<close>

type_synonym 's handler = "response_writer \<Rightarrow> request \<Rightarrow> ('s world, unit) prog"

definition RecoveryMiddleware :: "'s handler \<Rightarrow> 's handler" where
  "RecoveryMiddleware next rw r =
     with_defer
       (\<lambda>fs. case recover fs of (rec, (pf, w)) \<Rightarrow>
          if rec \<noteq> None then
            (let w1 = (case as_error rec of
                         Some err \<Rightarrow> slog_Error ''recovered from panic: %w'' [Some (VError err)] w
                       | None \<Rightarrow> slog_Error ''recovered from panic: %v'' [Some (VObject r)] w);
                 w2 = slog_Error ''Stacktrace: %s\<newline>'' [Some (VBytes (debug_Stack w1))] w1;
                 w3 = http_Error rw ''Internal Server Error'' StatusInternalServerError w2
             in (Returns (), (pf, w3)))
          else (Returns (), (pf, w)))
       (next rw r)"

section \<open>Example programs\<close>

text \<open>Concrete states, units of work and handlers on which the theorems below are run.\<close>

definition empty_world :: "unit world" where
  "empty_world =
     \<lparr>slog = [], http = [], debug_Stack = ''goroutine 1 [running]:'', calls = 0, user = ()\<rparr>"

definition returns_normally :: "(unit world, unit) prog" where
  "returns_normally w = (Returns (), w)"

definition always_fails :: "(unit world, unit) prog" where
  "always_fails = go_panic (Some (VString ''fail''))"

definition fails_with_error :: "(unit world, unit) prog" where
  "fails_with_error = go_panic (Some (VError (OtherError 7 ''disk full'')))"

definition zero_world :: "nat world" where
  "zero_world =
     \<lparr>slog = [], http = [], debug_Stack = ''goroutine 1 [running]:'', calls = 0, user = 0\<rparr>"

definition fails_twice :: "(nat world, unit) prog" where
  "fails_twice w =
     (if user w < 2 then go_panic (Some (VString ''fail'')) (w\<lparr>user := Suc (user w)\<rparr>)
      else (Returns (), w))"

definition noting_handler :: "go_error \<Rightarrow> (unit world, unit) prog" where
  "noting_handler err w = (Returns (), slog_Error ''handled'' [Some (VError err)] w)"

definition raising_handler :: "go_error \<Rightarrow> (unit world, unit) prog" where
  "raising_handler err = go_panic (Some (VString ''handler failed''))"

definition call_site :: "frame list" where
  "call_site = [(''panics.go'', 15), (''main.go'', 42), (''proc.go'', 271)]"

definition example_request :: request where
  "example_request = \<lparr>type_name = ''*http.Request'', address = 1, rendering = ''GET /''\<rparr>"

definition panicking_handler :: "unit handler" where
  "panicking_handler rw r = go_panic (Some (VString ''handler panic''))"

section \<open>Basic facts\<close>

declare Retry_loop.simps [simp del]
declare show_nat.simps [simp del]

lemma as_error_cases: "as_error (Some p) = None \<or> (\<exists>e. p = VError e)"
  by (cases p) simp_all

lemma calls_slog_Error [simp]: "calls (slog_Error msg args w) = calls w"
  by (simp add: slog_Error_def)

lemma slog_slog_Error [simp]: "slog (slog_Error msg args w) = slog w @ [LogError msg args]"
  by (simp add: slog_Error_def)

lemma counting_eq: "m w = (r, w') \<Longrightarrow> counting m w = (r, w'\<lparr>calls := Suc (calls w)\<rparr>)"
  by (simp add: counting_def)

subsection \<open>What a deferred recovery does with each outcome of the body\<close>

lemma handle_on_return:
  "body s = (Returns u, s1) \<Longrightarrow> with_defer (RecoverAndHandle h) body s = (Returns (), s1)"
  by (simp add: with_defer_def RecoverAndHandle_def recover_def)

lemma handle_on_error_payload:
  "body s = (Panics (VError e), s1) \<Longrightarrow> with_defer (RecoverAndHandle h) body s = h e s1"
  by (cases "h e s1"; rename_tac r s2; case_tac r)
     (simp_all add: with_defer_def RecoverAndHandle_def recover_def call_def)

lemma handle_on_other_payload:
  "body s = (Panics p, s1) \<Longrightarrow> as_error (Some p) = None \<Longrightarrow>
   with_defer (RecoverAndHandle h) body s
     = h (ErrorString (''recovered from panic: '' @ fmt_v (Some p))) s1"
  by (cases "h (ErrorString (''recovered from panic: '' @ fmt_v (Some p))) s1";
      rename_tac r s2; case_tac r)
     (simp_all add: with_defer_def RecoverAndHandle_def recover_def call_def)

lemma log_on_panic:
  assumes "body w = (Panics p, w1)"
  shows "with_defer Recover body w
           = (Returns (),
              slog_Error (if as_error (Some p) \<noteq> None then ''Recovered from panic: %w''
                          else ''recovered from panic: %v'') [Some p] w1)"
  using assms as_error_cases [of p]
  by (auto simp: with_defer_def Recover_def recover_def)

lemma attempt_on_return: "fn s = (Returns u, s1) \<Longrightarrow> Try fn s = (Returns None, s1)"
  by (simp add: Try_def handle_on_return [where ?s1.0 = "(None, s1)"])

lemma attempt_on_error_payload:
  "fn s = (Panics (VError e), s1) \<Longrightarrow> Try fn s = (Returns (Some e), s1)"
  by (simp add: Try_def handle_on_error_payload [where ?s1.0 = "(None, s1)"])

lemma attempt_on_other_payload:
  "fn s = (Panics p, s1) \<Longrightarrow> as_error (Some p) = None \<Longrightarrow>
   Try fn s = (Returns (Some (ErrorString (''recovered from panic: '' @ fmt_v (Some p)))), s1)"
  by (simp add: Try_def handle_on_other_payload [where ?s1.0 = "(None, s1)"])

lemma attempt_pinned:
  assumes "fn s = (Panics p, s1)"
  shows "Try fn s =
    (Returns (Some (case as_error (Some p) of Some err \<Rightarrow> err
                    | None \<Rightarrow> ErrorString (''recovered from panic: '' @ fmt_v (Some p)))), s1)"
  using assms as_error_cases [of p]
  by (auto simp: attempt_on_error_payload attempt_on_other_payload)

subsection \<open>One turn of the retry loop\<close>

lemma Retry_loop_nonpositive: "r \<le> 0 \<Longrightarrow> Retry_loop r fn w = (Returns (), w)"
  by (subst Retry_loop.simps) simp

lemma Retry_loop_success:
  "0 < r \<Longrightarrow> fn w = (Returns u, w1) \<Longrightarrow> Retry_loop r fn w = (Returns (), w1)"
  by (subst Retry_loop.simps) (simp add: attempt_on_return)

lemma Retry_turn_success: "fn w = (Returns u, w1) \<Longrightarrow> Retry_turn fn w = w1"
  by (simp add: Retry_turn_def attempt_on_return)

lemma Retry_turn_failure:
  "fn w = (Panics p, w1) \<Longrightarrow>
   Retry_turn fn w =
     slog_Error ''Retrying function due to error: %v''
       [Some (VError (case as_error (Some p) of Some err \<Rightarrow> err
                      | None \<Rightarrow> ErrorString (''recovered from panic: '' @ fmt_v (Some p))))] w1"
  by (simp add: Retry_turn_def attempt_pinned)

lemma Retry_loop_turn_success:
  "0 < r \<Longrightarrow> fn w = (Returns u, w1) \<Longrightarrow> Retry_loop r fn w = (Returns (), Retry_turn fn w)"
  by (simp add: Retry_loop_success Retry_turn_success)

lemma Retry_loop_turn_failure:
  assumes "0 < r" and "fn w = (Panics p, w1)"
  shows "Retry_loop r fn w = Retry_loop (r - 1) fn (Retry_turn fn w)"
  using assms(1)
  by (subst Retry_loop.simps)
     (simp add: attempt_pinned [of fn w p w1, OF assms(2)]
        Retry_turn_failure [of fn w p w1, OF assms(2)])

section \<open>Retry\<close>

lemma calls_Retry_turn: "calls (Retry_turn (counting fn) w) = Suc (calls w)"
proof (cases "fn w")
  case (Pair r w')
  then show ?thesis
    by (cases r)
       (simp_all add: Retry_turn_success [of "counting fn" w _ "w'\<lparr>calls := Suc (calls w)\<rparr>"]
          Retry_turn_failure [of "counting fn" w _ "w'\<lparr>calls := Suc (calls w)\<rparr>"]
          counting_def)
qed

lemma calls_Retry_turns: "calls ((Retry_turn (counting fn) ^^ k) w) = calls w + k"
  by (induction k) (simp_all add: calls_Retry_turn)

lemma Retry_loop_all_failures:
  assumes "\<forall>w. \<exists>p w'. g w = (Panics p, w')"
  shows "Retry_loop (int k) g w = (Returns (), (Retry_turn g ^^ k) w)"
proof (induction k arbitrary: w)
  case 0
  show ?case by (simp add: Retry_loop_nonpositive)
next
  case (Suc k)
  from assms obtain p w' where g: "g w = (Panics p, w')" by blast
  have "Retry_loop (int (Suc k)) g w = Retry_loop (int k) g (Retry_turn g w)"
    using Retry_loop_turn_failure [of "int (Suc k)" g w p w', OF _ g] by simp
  also have "\<dots> = (Returns (), (Retry_turn g ^^ k) (Retry_turn g w))"
    by (rule Suc.IH)
  finally show ?case by (simp add: funpow_swap1)
qed

lemma Retry_loop_first_success:
  assumes "\<forall>j<m. \<exists>p w'. g ((Retry_turn g ^^ j) w) = (Panics p, w')"
    and "\<exists>w'. g ((Retry_turn g ^^ m) w) = (Returns (), w')"
    and "int (Suc m) \<le> r"
  shows "Retry_loop r g w = (Returns (), (Retry_turn g ^^ Suc m) w)"
  using assms
proof (induction m arbitrary: w r)
  case 0
  then obtain w' where g: "g w = (Returns (), w')" by auto
  from 0 have "0 < r" by simp
  from Retry_loop_turn_success [of r g w "()" w', OF this g] show ?case by simp
next
  case (Suc m)
  from Suc.prems(1) have "\<exists>p w'. g ((Retry_turn g ^^ 0) w) = (Panics p, w')" by blast
  then obtain p w' where g: "g w = (Panics p, w')" by auto
  from Suc.prems(3) have r: "0 < r" by simp
  have a: "\<forall>j<m. \<exists>p w'. g ((Retry_turn g ^^ j) (Retry_turn g w)) = (Panics p, w')"
  proof (intro allI impI)
    fix j assume "j < m"
    then have "Suc j < Suc m" by simp
    with Suc.prems(1) have "\<exists>p w'. g ((Retry_turn g ^^ Suc j) w) = (Panics p, w')" by blast
    then show "\<exists>p w'. g ((Retry_turn g ^^ j) (Retry_turn g w)) = (Panics p, w')"
      by (simp add: funpow_swap1)
  qed
  have b: "\<exists>w'. g ((Retry_turn g ^^ m) (Retry_turn g w)) = (Returns (), w')"
    using Suc.prems(2) by (simp add: funpow_swap1)
  have c: "int (Suc m) \<le> r - 1" using Suc.prems(3) by simp
  have "Retry_loop r g w = Retry_loop (r - 1) g (Retry_turn g w)"
    by (rule Retry_loop_turn_failure [of r g w p w', OF r g])
  also have "\<dots> = (Returns (), (Retry_turn g ^^ Suc m) (Retry_turn g w))"
    by (rule Suc.IH [OF a b c])
  finally show ?case by (simp add: funpow_swap1)
qed

text \<open>
  C1. Let the unit of work \<open>fn\<close> panic in every state, and let \<open>n \<ge> 1\<close>. Then \<open>Retry n\<close>
  enters \<open>fn\<close> exactly \<open>n\<close> times (the counter of the instrumented \<open>fn\<close> grows by \<open>n\<close>) and
  then returns normally; \<open>Retry\<close> has no result, so no error reaches its caller. The last
  attempt is \<open>fn\<close> started in the state that \<open>n - 1\<close> attempts leave; it panics with some
  payload \<open>p\<close>, and what \<open>Retry\<close> does last is to log the error captured from \<open>p\<close>: \<open>p\<close>
  itself if it is an error value, otherwise the error made of the marker and the text of
  \<open>p\<close>. Nothing else is added to the state that this attempt left.
\<close>

theorem Retry_exhausts_budget:
  assumes "\<forall>w. \<exists>p w'. fn w = (Panics p, w')" and "1 \<le> n"
  shows "fst (Retry n (counting fn) w) = Returns ()
       \<and> calls (snd (Retry n (counting fn) w)) = calls w + nat n
       \<and> (\<exists>p w' e.
            counting fn (snd (Retry (n - 1) (counting fn) w)) = (Panics p, w')
          \<and> e = (case as_error (Some p) of Some err \<Rightarrow> err
                 | None \<Rightarrow> ErrorString (''recovered from panic: '' @ fmt_v (Some p)))
          \<and> snd (Retry n (counting fn) w)
              = slog_Error ''Retrying function due to error: %v'' [Some (VError e)] w'
          \<and> last (slog (snd (Retry n (counting fn) w)))
              = LogError ''Retrying function due to error: %v'' [Some (VError e)])"
proof -
  have g: "\<forall>w. \<exists>p w'. counting fn w = (Panics p, w')"
  proof
    fix v
    from assms(1) obtain p w' where "fn v = (Panics p, w')" by blast
    from counting_eq [of fn v "Panics p" w', OF this]
    show "\<exists>p w'. counting fn v = (Panics p, w')" by blast
  qed
  from assms(2) have "n = int (Suc (nat (n - 1)))" by simp
  then obtain k where n: "n = int (Suc k)" ..
  have whole: "Retry n (counting fn) w = (Returns (), (Retry_turn (counting fn) ^^ Suc k) w)"
    unfolding Retry_def n by (rule Retry_loop_all_failures [OF g])
  have before: "Retry (n - 1) (counting fn) w = (Returns (), (Retry_turn (counting fn) ^^ k) w)"
    unfolding Retry_def n using Retry_loop_all_failures [OF g, of k w] by simp
  from g obtain p w' where
    final: "counting fn ((Retry_turn (counting fn) ^^ k) w) = (Panics p, w')" by blast
  define e where "e = (case as_error (Some p) of Some err \<Rightarrow> err
                       | None \<Rightarrow> ErrorString (''recovered from panic: '' @ fmt_v (Some p)))"
  have "snd (Retry n (counting fn) w)
          = Retry_turn (counting fn) ((Retry_turn (counting fn) ^^ k) w)"
    by (simp add: whole)
  also have "\<dots> = slog_Error ''Retrying function due to error: %v'' [Some (VError e)] w'"
    unfolding e_def
    by (rule Retry_turn_failure [of "counting fn" "(Retry_turn (counting fn) ^^ k) w" p w', OF final])
  finally have state: "snd (Retry n (counting fn) w)
      = slog_Error ''Retrying function due to error: %v'' [Some (VError e)] w'" .
  have count: "calls (snd (Retry n (counting fn) w)) = calls w + nat n"
    unfolding whole by (simp add: n calls_Retry_turn calls_Retry_turns)
  have "counting fn (snd (Retry (n - 1) (counting fn) w)) = (Panics p, w')
      \<and> e = (case as_error (Some p) of Some err \<Rightarrow> err
             | None \<Rightarrow> ErrorString (''recovered from panic: '' @ fmt_v (Some p)))
      \<and> snd (Retry n (counting fn) w)
          = slog_Error ''Retrying function due to error: %v'' [Some (VError e)] w'
      \<and> last (slog (snd (Retry n (counting fn) w)))
          = LogError ''Retrying function due to error: %v'' [Some (VError e)]"
    using final state e_def by (simp add: before)
  then show ?thesis using whole count by auto
qed

theorem Retry_exhausts_budget_witness:
  "fst (always_fails empty_world) = Panics (VString ''fail'')
   \<and> fst (Retry 3 (counting always_fails) empty_world) = Returns ()
   \<and> calls (snd (Retry 3 (counting always_fails) empty_world)) = 3
   \<and> last (slog (snd (Retry 3 (counting always_fails) empty_world)))
       = LogError ''Retrying function due to error: %v''
           [Some (VError (ErrorString ''recovered from panic: fail''))]"
proof -
  have a: "\<forall>w. \<exists>p w'. always_fails w = (Panics p, w')"
    by (simp add: always_fails_def)
  show ?thesis
    using Retry_exhausts_budget [of always_fails 3 empty_world, OF a]
    by (auto simp: always_fails_def empty_world_def counting_def)
qed

text \<open>
  C6. Attempt \<open>j + 1\<close> of a run is \<open>fn\<close> started in the state that \<open>j\<close> turns of the loop
  leave. Let \<open>1 \<le> k \<le> n\<close>, let attempts 1 to \<open>k - 1\<close> panic and let attempt \<open>k\<close> return
  normally. Then \<open>Retry n\<close> returns normally, \<open>fn\<close> has been entered exactly \<open>k\<close> times (the
  counter of the instrumented \<open>fn\<close> has grown by \<open>k\<close>), and the final state is the one
  left by turn \<open>k\<close>: there is no attempt, and no log record, after the success.
\<close>

theorem Retry_stops_at_first_success:
  assumes "1 \<le> k" and "int k \<le> n"
    and "\<forall>j<k - 1. \<exists>p w'. fn ((Retry_turn (counting fn) ^^ j) w) = (Panics p, w')"
    and "\<exists>w'. fn ((Retry_turn (counting fn) ^^ (k - 1)) w) = (Returns (), w')"
  shows "fst (Retry n (counting fn) w) = Returns ()
       \<and> calls (snd (Retry n (counting fn) w)) = calls w + k
       \<and> snd (Retry n (counting fn) w) = (Retry_turn (counting fn) ^^ k) w"
proof -
  have a: "\<forall>j<k - 1. \<exists>p w'. counting fn ((Retry_turn (counting fn) ^^ j) w) = (Panics p, w')"
  proof (intro allI impI)
    fix j assume "j < k - 1"
    with assms(3) obtain p w' where
      "fn ((Retry_turn (counting fn) ^^ j) w) = (Panics p, w')" by blast
    from counting_eq [of fn _ "Panics p" w', OF this]
    show "\<exists>p w'. counting fn ((Retry_turn (counting fn) ^^ j) w) = (Panics p, w')" by blast
  qed
  from assms(4) obtain w' where
    "fn ((Retry_turn (counting fn) ^^ (k - 1)) w) = (Returns (), w')" ..
  from counting_eq [of fn _ "Returns ()" w', OF this]
  have b: "\<exists>w'. counting fn ((Retry_turn (counting fn) ^^ (k - 1)) w) = (Returns (), w')" by blast
  from assms(1,2) have c: "int (Suc (k - 1)) \<le> n" by simp
  from assms(1) have k: "Suc (k - 1) = k" by simp
  have "Retry n (counting fn) w = (Returns (), (Retry_turn (counting fn) ^^ k) w)"
    unfolding Retry_def using Retry_loop_first_success [OF a b c] by (simp only: k)
  then show ?thesis by (simp add: calls_Retry_turns)
qed

theorem Retry_stops_at_first_success_witness:
  "fst (fails_twice zero_world) = Panics (VString ''fail'')
   \<and> fst (fails_twice (zero_world\<lparr>user := 1\<rparr>)) = Panics (VString ''fail'')
   \<and> fst (fails_twice (zero_world\<lparr>user := 2\<rparr>)) = Returns ()
   \<and> fst (Retry 5 (counting fails_twice) zero_world) = Returns ()
   \<and> calls (snd (Retry 5 (counting fails_twice) zero_world)) = 3
   \<and> user (snd (Retry 5 (counting fails_twice) zero_world)) = 2
   \<and> length (slog (snd (Retry 5 (counting fails_twice) zero_world))) = 2"
proof -
  note defs = Retry_turn_def Try_def with_defer_def RecoverAndHandle_def recover_def call_def
    counting_def fails_twice_def zero_world_def slog_Error_def
  have e1: "(Retry_turn (counting fails_twice) ^^ 1) zero_world =
      \<lparr>slog = [LogError ''Retrying function due to error: %v''
                 [Some (VError (ErrorString ''recovered from panic: fail''))]],
       http = [], debug_Stack = ''goroutine 1 [running]:'', calls = 1, user = 1\<rparr>"
    by (simp add: defs)
  have e2: "(Retry_turn (counting fails_twice) ^^ 2) zero_world =
      \<lparr>slog = [LogError ''Retrying function due to error: %v''
                 [Some (VError (ErrorString ''recovered from panic: fail''))],
               LogError ''Retrying function due to error: %v''
                 [Some (VError (ErrorString ''recovered from panic: fail''))]],
       http = [], debug_Stack = ''goroutine 1 [running]:'', calls = 2, user = 2\<rparr>"
    by (simp add: numeral_2_eq_2 defs)
  have e3: "(Retry_turn (counting fails_twice) ^^ 3) zero_world =
      \<lparr>slog = [LogError ''Retrying function due to error: %v''
                 [Some (VError (ErrorString ''recovered from panic: fail''))],
               LogError ''Retrying function due to error: %v''
                 [Some (VError (ErrorString ''recovered from panic: fail''))]],
       http = [], debug_Stack = ''goroutine 1 [running]:'', calls = 3, user = 2\<rparr>"
    by (simp add: numeral_3_eq_3 defs)
  have a: "\<forall>j<3 - 1. \<exists>p w'.
      fails_twice ((Retry_turn (counting fails_twice) ^^ j) zero_world) = (Panics p, w')"
  proof (intro allI impI)
    fix j :: nat assume "j < 3 - 1"
    then have "j = 0 \<or> j = 1" by auto
    then show "\<exists>p w'.
        fails_twice ((Retry_turn (counting fails_twice) ^^ j) zero_world) = (Panics p, w')"
      using e1 by (auto simp: fails_twice_def zero_world_def)
  qed
  have b: "\<exists>w'.
      fails_twice ((Retry_turn (counting fails_twice) ^^ (3 - 1)) zero_world) = (Returns (), w')"
    using e2 by (simp add: fails_twice_def)
  show ?thesis
    using Retry_stops_at_first_success [of 3 5 fails_twice zero_world, OF _ _ a b] e3
    by (simp add: fails_twice_def zero_world_def)
qed

text \<open>
  C10. For \<open>n \<le> 0\<close> the loop of \<open>Retry\<close> is not entered: \<open>Retry n fn\<close> returns normally and
  leaves the whole state as it was, for every \<open>fn\<close>; in particular the counter of an
  instrumented \<open>fn\<close> does not move, so \<open>fn\<close> is never invoked.
\<close>

theorem Retry_without_budget:
  assumes "n \<le> 0"
  shows "Retry n fn w = (Returns (), w)
       \<and> calls (snd (Retry n (counting fn) w)) = calls w"
  using assms by (simp add: Retry_def Retry_loop_nonpositive)

theorem Retry_without_budget_witness:
  "(-2::int) \<le> 0
   \<and> Retry (-2) always_fails empty_world = (Returns (), empty_world)
   \<and> calls (snd (Retry (-2) (counting always_fails) empty_world)) = calls empty_world"
  using Retry_without_budget [of "-2" always_fails empty_world] by simp

section \<open>Try and the captured error\<close>

text \<open>
  The sentence "when the unit of work raises, \<open>Try\<close> returns an error equal in textual
  content to the abort payload" fails for a payload that is not an error: for
  \<open>panic("fail")\<close> the text of the returned error is \<open>recovered from panic: fail\<close>.
\<close>

theorem Try_error_text_counterexample:
  "always_fails empty_world = (Panics (VString ''fail''), empty_world)
   \<and> Try always_fails empty_world
       = (Returns (Some (ErrorString ''recovered from panic: fail'')), empty_world)
   \<and> Error (ErrorString ''recovered from panic: fail'') \<noteq> fmt_v (Some (VString ''fail''))"
  by (simp add: always_fails_def attempt_on_other_payload)

text \<open>
  C2 (amended). \<open>Try fn\<close> returns no error when \<open>fn\<close> returns normally. When \<open>fn\<close> panics,
  \<open>Try fn\<close> returns normally with a non-nil error whose text is the text of the payload
  if the payload is an error value, and \<open>recovered from panic: \<close> followed by the text
  of the payload otherwise.
\<close>

theorem Try_error_text:
  "(fn s = (Returns (), s1) \<longrightarrow> Try fn s = (Returns None, s1))
   \<and> (fn s = (Panics p, s1) \<longrightarrow>
        (\<exists>e. Try fn s = (Returns (Some e), s1)
           \<and> Error e = (if as_error (Some p) \<noteq> None then fmt_v (Some p)
                         else ''recovered from panic: '' @ fmt_v (Some p))))"
  using as_error_cases [of p]
  by (auto simp: attempt_on_return attempt_on_error_payload attempt_on_other_payload)

theorem Try_error_text_witness:
  "Try returns_normally empty_world = (Returns None, empty_world)
   \<and> (\<exists>e. Try fails_with_error empty_world = (Returns (Some e), empty_world)
         \<and> Error e = ''disk full'')
   \<and> (\<exists>e. Try always_fails empty_world = (Returns (Some e), empty_world)
         \<and> Error e = ''recovered from panic: fail'')"
  using Try_error_text [where fn = returns_normally and s = empty_world and ?s1.0 = empty_world]
    Try_error_text [where fn = fails_with_error and s = empty_world
      and p = "VError (OtherError 7 ''disk full'')" and ?s1.0 = empty_world]
    Try_error_text [where fn = always_fails and s = empty_world
      and p = "VString ''fail''" and ?s1.0 = empty_world]
  by (simp add: returns_normally_def fails_with_error_def always_fails_def)

text \<open>
  C3. Let the protected body panic with payload \<open>p\<close>. If \<open>p\<close> is an error value \<open>err\<close>, the
  handler of a deferred \<open>RecoverAndHandle\<close> is applied to \<open>err\<close> itself and \<open>Try\<close> returns
  \<open>err\<close> itself. Otherwise both get a new error whose message is the marker
  \<open>recovered from panic: \<close> followed by the text of \<open>p\<close>.
\<close>

theorem captured_error_keeps_identity_or_gets_marker:
  assumes "body s = (Panics p, s1)"
  shows "(\<forall>err. p = VError err \<longrightarrow>
            with_defer (RecoverAndHandle h) body s = h err s1
          \<and> Try body s = (Returns (Some err), s1))
       \<and> ((\<forall>err. p \<noteq> VError err) \<longrightarrow>
            with_defer (RecoverAndHandle h) body s
              = h (ErrorString (''recovered from panic: '' @ fmt_v (Some p))) s1
          \<and> Try body s
              = (Returns (Some (ErrorString (''recovered from panic: '' @ fmt_v (Some p)))), s1)
          \<and> Error (ErrorString (''recovered from panic: '' @ fmt_v (Some p)))
              = ''recovered from panic: '' @ fmt_v (Some p))"
proof -
  have "as_error (Some p) = None" if "\<forall>err. p \<noteq> VError err"
    using that as_error_cases [of p] by auto
  with assms show ?thesis
    by (auto simp: handle_on_error_payload handle_on_other_payload
        attempt_on_error_payload attempt_on_other_payload)
qed

theorem captured_error_keeps_identity_or_gets_marker_witness:
  "fails_with_error empty_world = (Panics (VError (OtherError 7 ''disk full'')), empty_world)
   \<and> with_defer (RecoverAndHandle noting_handler) fails_with_error empty_world
       = noting_handler (OtherError 7 ''disk full'') empty_world
   \<and> Try fails_with_error empty_world = (Returns (Some (OtherError 7 ''disk full'')), empty_world)
   \<and> always_fails empty_world = (Panics (VString ''fail''), empty_world)
   \<and> with_defer (RecoverAndHandle noting_handler) always_fails empty_world
       = noting_handler (ErrorString ''recovered from panic: fail'') empty_world
   \<and> Try always_fails empty_world
       = (Returns (Some (ErrorString ''recovered from panic: fail'')), empty_world)"
proof -
  have a: "fails_with_error empty_world
             = (Panics (VError (OtherError 7 ''disk full'')), empty_world)"
    by (simp add: fails_with_error_def)
  have b: "always_fails empty_world = (Panics (VString ''fail''), empty_world)"
    by (simp add: always_fails_def)
  show ?thesis
    using captured_error_keeps_identity_or_gets_marker
            [of fails_with_error empty_world _ empty_world noting_handler, OF a]
      captured_error_keeps_identity_or_gets_marker
            [of always_fails empty_world _ empty_world noting_handler, OF b]
      a b
    by simp
qed

section \<open>Recover and RecoverAndHandle\<close>

text \<open>
  C4. Let \<open>RecoverAndHandle\<close> be deferred with an instrumented handler \<open>h\<close>. If the body
  returns normally, the function returns in the state the body left: \<open>h\<close> is not
  invoked. If the body panics, the whole effect is one invocation of \<open>h\<close> on the
  captured error (the counter grows by exactly one), and the outcome is the outcome of
  \<open>h\<close>: when \<open>h\<close> panics, that panic leaves the function.
\<close>

theorem RecoverAndHandle_invokes_handler_once:
  "(body w = (Returns (), w1) \<longrightarrow>
      with_defer (RecoverAndHandle (\<lambda>err. counting (h err))) body w = (Returns (), w1))
   \<and> (body w = (Panics p, w1) \<longrightarrow>
        (\<exists>err. with_defer (RecoverAndHandle (\<lambda>err. counting (h err))) body w
                  = counting (h err) w1
              \<and> calls (snd (with_defer (RecoverAndHandle (\<lambda>err. counting (h err))) body w))
                  = Suc (calls w1)
              \<and> fst (with_defer (RecoverAndHandle (\<lambda>err. counting (h err))) body w)
                  = fst (h err w1)))"
proof -
  have c: "calls (snd (counting m v)) = Suc (calls v) \<and> fst (counting m v) = fst (m v)"
    for m :: "('s world, unit) prog" and v
    by (simp add: counting_def split: prod.splits)
  show ?thesis
    using as_error_cases [of p]
    by (auto simp: handle_on_return handle_on_error_payload handle_on_other_payload c)
qed

theorem RecoverAndHandle_invokes_handler_once_witness:
  "with_defer (RecoverAndHandle (\<lambda>err. counting (noting_handler err))) returns_normally empty_world
     = (Returns (), empty_world)
   \<and> calls (snd (with_defer (RecoverAndHandle (\<lambda>err. counting (noting_handler err)))
                    always_fails empty_world)) = 1
   \<and> fst (with_defer (RecoverAndHandle (\<lambda>err. counting (noting_handler err)))
             always_fails empty_world) = Returns ()
   \<and> calls (snd (with_defer (RecoverAndHandle (\<lambda>err. counting (raising_handler err)))
                    always_fails empty_world)) = 1
   \<and> fst (with_defer (RecoverAndHandle (\<lambda>err. counting (raising_handler err)))
             always_fails empty_world) = Panics (VString ''handler failed'')"
  using RecoverAndHandle_invokes_handler_once [where body = returns_normally and w = empty_world
      and ?w1.0 = empty_world and h = noting_handler]
    RecoverAndHandle_invokes_handler_once [where body = always_fails and w = empty_world
      and p = "VString ''fail''" and ?w1.0 = empty_world and h = noting_handler]
    RecoverAndHandle_invokes_handler_once [where body = always_fails and w = empty_world
      and p = "VString ''fail''" and ?w1.0 = empty_world and h = raising_handler]
  by (auto simp: returns_normally_def always_fails_def noting_handler_def raising_handler_def
      empty_world_def)

text \<open>
  C7. Whatever payload the body panics with, a function that defers \<open>Recover\<close> returns
  normally: the panic stops there. Its only effect is one call of the logger with the
  payload.
\<close>

theorem Recover_swallows_panic:
  assumes "body w = (Panics p, w1)"
  shows "fst (with_defer Recover body w) = Returns ()
       \<and> snd (with_defer Recover body w)
           = slog_Error (if as_error (Some p) \<noteq> None then ''Recovered from panic: %w''
                         else ''recovered from panic: %v'') [Some p] w1"
  by (simp add: log_on_panic [of body w p w1, OF assms])

theorem Recover_swallows_panic_witness:
  "always_fails empty_world = (Panics (VString ''fail''), empty_world)
   \<and> fst (with_defer Recover always_fails empty_world) = Returns ()
   \<and> slog (snd (with_defer Recover always_fails empty_world))
       = [LogError ''recovered from panic: %v'' [Some (VString ''fail'')]]"
proof -
  have a: "always_fails empty_world = (Panics (VString ''fail''), empty_world)"
    by (simp add: always_fails_def)
  show ?thesis
    using Recover_swallows_panic [of always_fails empty_world "VString ''fail''" empty_world, OF a] a
    by (simp add: empty_world_def)
qed

section \<open>Assertion helpers\<close>

text \<open>
  C8. \<open>OnError\<close> panics if and only if \<open>err\<close> is not nil. With \<open>err\<close> nil it returns and
  leaves the state as it was. With \<open>err\<close> an error \<open>e\<close>, called from line \<open>line\<close> of file
  \<open>file\<close> (the frame one above its own), the payload is the string made of that file and
  line, the message and the text of \<open>e\<close>.
\<close>

theorem OnError_raises_iff_error_present:
  "((\<exists>p. fst (OnError stack err message s) = Panics p) \<longleftrightarrow> err \<noteq> None)
   \<and> (err = None \<longrightarrow> OnError stack err message s = (Returns (), s))
   \<and> (\<forall>e self file line callers.
         err = Some e \<and> stack = self # (file, line) # callers \<longrightarrow>
         OnError stack err message s
           = (Panics (VString (''('' @ file @ '':'' @ show_int line @ ''): '' @ message
                                @ '' '' @ Error e)), s))"
  by (auto simp: OnError_def runtime_Caller_def split: prod.splits)

theorem OnError_raises_iff_error_present_witness:
  "OnError call_site None ''operation failed'' empty_world = (Returns (), empty_world)
   \<and> OnError call_site (Some (ErrorString ''something went wrong'')) ''operation failed'' empty_world
       = (Panics (VString ''(main.go:42): operation failed something went wrong''), empty_world)"
proof -
  have n: "show_int 42 = ''42''" by code_simp
  show ?thesis
    using OnError_raises_iff_error_present [of call_site None "''operation failed''" empty_world]
      OnError_raises_iff_error_present [of call_site "Some (ErrorString ''something went wrong'')"
        "''operation failed''" empty_world]
    by (simp add: call_site_def n)
qed

lemma dropWhile_all: "(\<forall>x\<in>set (dropWhile P xs). P x) \<longleftrightarrow> (\<forall>x\<in>set xs. P x)"
  by (induction xs) auto

lemma TrimSpace_empty_iff: "TrimSpace s = [] \<longleftrightarrow> (\<forall>r\<in>set s. unicode_IsSpace r)"
proof -
  have "TrimSpace s = [] \<longleftrightarrow> (\<forall>r\<in>set (dropWhile unicode_IsSpace s). unicode_IsSpace r)"
    by (simp add: TrimSpace_def)
  then show ?thesis by (simp add: dropWhile_all)
qed

text \<open>
  C9. \<open>OnBlank\<close> panics if and only if the trimmed string is empty. It panics for every
  string all of whose runes are white space (the empty string among them), and for a
  string with at least one rune that is not white space it returns and leaves the state
  as it was.
\<close>

theorem OnBlank_raises_iff_blank:
  "((\<exists>p. fst (OnBlank stack val message s) = Panics p) \<longleftrightarrow> TrimSpace val = [])
   \<and> ((\<forall>r\<in>set val. unicode_IsSpace r) \<longrightarrow> (\<exists>p. fst (OnBlank stack val message s) = Panics p))
   \<and> ((\<exists>r\<in>set val. \<not> unicode_IsSpace r) \<longrightarrow> OnBlank stack val message s = (Returns (), s))"
  by (auto simp: OnBlank_def TrimSpace_empty_iff split: prod.splits)

theorem OnBlank_raises_iff_blank_witness:
  "(\<exists>p. fst (OnBlank call_site [] ''name'' empty_world) = Panics p)
   \<and> (\<exists>p. fst (OnBlank call_site [0x20, 0x09, 0x0A, 0xA0] ''name'' empty_world) = Panics p)
   \<and> OnBlank call_site [0x20, 0x61, 0x20] ''name'' empty_world = (Returns (), empty_world)"
  using OnBlank_raises_iff_blank [of call_site "[]" "''name''" empty_world]
    OnBlank_raises_iff_blank [of call_site "[0x20, 0x09, 0x0A, 0xA0]" "''name''" empty_world]
    OnBlank_raises_iff_blank [of call_site "[0x20, 0x61, 0x20]" "''name''" empty_world]
  by (simp add: unicode_IsSpace_def TrimSpace_def)

section \<open>HTTP middleware\<close>

lemma RecoveryMiddleware_on_return:
  "next rw r w = (Returns (), w1) \<Longrightarrow> RecoveryMiddleware next rw r w = (Returns (), w1)"
  by (simp add: RecoveryMiddleware_def with_defer_def recover_def)

lemma RecoveryMiddleware_on_panic:
  assumes "next rw r w = (Panics p, w1)"
  shows "RecoveryMiddleware next rw r w =
    (Returns (),
     http_Error rw ''Internal Server Error'' 500
       (slog_Error ''Stacktrace: %s\<newline>'' [Some (VBytes (debug_Stack w1))]
          (case as_error (Some p) of
             Some err \<Rightarrow> slog_Error ''recovered from panic: %w'' [Some (VError err)] w1
           | None \<Rightarrow> slog_Error ''recovered from panic: %v'' [Some (VObject r)] w1)))"
  using assms as_error_cases [of p]
  by (auto simp: RecoveryMiddleware_def with_defer_def recover_def Let_def
      StatusInternalServerError_def slog_Error_def)

text \<open>
  C5. The middleware stops the panic, logs a stack trace, calls \<open>http.Error\<close> with the
  body \<open>Internal Server Error\<close> and status 500, and returns. What it logs first is the
  captured error only when the payload is an error value. For \<open>panic("handler panic")\<close>
  the argument of that log call is the request \<open>r\<close>, and the payload reaches no log call,
  whereas \<open>Recover\<close> deferred around the same handler logs the payload.
\<close>

theorem RecoveryMiddleware_logs_request_instead_of_payload:
  "panicking_handler 0 example_request empty_world
     = (Panics (VString ''handler panic''), empty_world)
   \<and> RecoveryMiddleware panicking_handler 0 example_request empty_world
     = (Returns (),
        empty_world
          \<lparr>slog := [LogError ''recovered from panic: %v'' [Some (VObject example_request)],
                    LogError ''Stacktrace: %s\<newline>''
                      [Some (VBytes ''goroutine 1 [running]:'')]],
           http := [HttpError 0 ''Internal Server Error'' 500]\<rparr>)
   \<and> slog (snd (with_defer Recover (panicking_handler 0 example_request) empty_world))
     = [LogError ''recovered from panic: %v'' [Some (VString ''handler panic'')]]"
proof -
  have a: "panicking_handler 0 example_request empty_world
     = (Panics (VString ''handler panic''), empty_world)"
    by (simp add: panicking_handler_def)
  have b: "RecoveryMiddleware panicking_handler 0 example_request empty_world
     = (Returns (),
        empty_world
          \<lparr>slog := [LogError ''recovered from panic: %v'' [Some (VObject example_request)],
                    LogError ''Stacktrace: %s\<newline>''
                      [Some (VBytes ''goroutine 1 [running]:'')]],
           http := [HttpError 0 ''Internal Server Error'' 500]\<rparr>)"
    unfolding RecoveryMiddleware_on_panic [of panicking_handler 0 example_request empty_world, OF a]
    by (simp add: slog_Error_def http_Error_def empty_world_def)
  have c: "slog (snd (with_defer Recover (panicking_handler 0 example_request) empty_world))
     = [LogError ''recovered from panic: %v'' [Some (VString ''handler panic'')]]"
    unfolding log_on_panic [of "panicking_handler 0 example_request" empty_world, OF a]
    by (simp add: empty_world_def)
  from a b c show ?thesis by blast
qed

end
